theory Spec2Isabelle
  imports Main "HOL-Library.Word" "HOL-Library.Char_ord" "HOL-Library.List_Lexorder"
begin

unbundle bit_operations_syntax

section \<open>FatFs result codes and the codes added by file.cpp\<close>

text \<open>
  The members of the FatFs enum \<open>FRESULT\<close>, in the order in which
  \<open>filesystem_error::what\<close> lists them (file.cpp, lines 184-203).
\<close>

datatype FRESULT =
    FR_OK | FR_DISK_ERR | FR_INT_ERR | FR_NOT_READY | FR_NO_FILE | FR_NO_PATH
  | FR_INVALID_NAME | FR_DENIED | FR_EXIST | FR_INVALID_OBJECT | FR_WRITE_PROTECTED
  | FR_INVALID_DRIVE | FR_NOT_ENABLED | FR_NO_FILESYSTEM | FR_MKFS_ABORTED | FR_TIMEOUT
  | FR_LOCKED | FR_NOT_ENOUGH_CORE | FR_TOO_MANY_OPEN_FILES | FR_INVALID_PARAMETER

type_synonym u8 = "8 word"
type_synonym u16 = "16 word"
type_synonym u32 = "32 word"
type_synonym u64 = "64 word"

text \<open>
  The integer value of an enumerator, as stored into the handle's \<open>err\<close> member
  (an integer wider than a byte: it also holds 0x100..0x102). The enumerators number
  from 0 and fit into one byte (the \<open>static_assert\<close> of line 27).
\<close>

fun FRESULT_value :: "FRESULT \<Rightarrow> u32" where
  "FRESULT_value FR_OK = 0"
| "FRESULT_value FR_DISK_ERR = 1"
| "FRESULT_value FR_INT_ERR = 2"
| "FRESULT_value FR_NOT_READY = 3"
| "FRESULT_value FR_NO_FILE = 4"
| "FRESULT_value FR_NO_PATH = 5"
| "FRESULT_value FR_INVALID_NAME = 6"
| "FRESULT_value FR_DENIED = 7"
| "FRESULT_value FR_EXIST = 8"
| "FRESULT_value FR_INVALID_OBJECT = 9"
| "FRESULT_value FR_WRITE_PROTECTED = 10"
| "FRESULT_value FR_INVALID_DRIVE = 11"
| "FRESULT_value FR_NOT_ENABLED = 12"
| "FRESULT_value FR_NO_FILESYSTEM = 13"
| "FRESULT_value FR_MKFS_ABORTED = 14"
| "FRESULT_value FR_TIMEOUT = 15"
| "FRESULT_value FR_LOCKED = 16"
| "FRESULT_value FR_NOT_ENOUGH_CORE = 17"
| "FRESULT_value FR_TOO_MANY_OPEN_FILES = 18"
| "FRESULT_value FR_INVALID_PARAMETER = 19"

definition FR_DISK_FULL :: u32 where "FR_DISK_FULL = 0x100"
definition FR_EOF :: u32 where "FR_EOF = 0x101"
definition FR_BAD_SEEK :: u32 where "FR_BAD_SEEK = 0x102"

text \<open>
  \<open>std::string::c_str\<close> as the driver reads it: the characters before the first NUL.
\<close>

definition c_str :: "string \<Rightarrow> string" where
  "c_str s = takeWhile (\<lambda>c. c \<noteq> CHR 0x00) s"

section \<open>The FatFs file API, as a parameter\<close>

text \<open>
  FatFs itself is not part of file.cpp. Its entry points are taken as a parameter: a
  record of functions over a state \<open>'d\<close> that stands for the file object \<open>FIL\<close>
  together with the volume behind it. \<open>DWORD\<close> and \<open>UINT\<close> are 32 bits wide,
  \<open>BYTE\<close> is 8 bits wide, and \<open>f_puts\<close> returns a (32-bit, two's complement)
  \<open>int\<close>. \<open>f_tell\<close> and \<open>f_size\<close> are macros that read a member of \<open>FIL\<close>.
  \<open>f_read\<close> yields the result code, the bytes stored into the caller's buffer and
  the count stored into \<open>*br\<close>; \<open>f_write\<close> yields the result code and \<open>*bw\<close>.
\<close>

record 'd fatfs_file =
  f_open :: "'d \<Rightarrow> string \<Rightarrow> u8 \<Rightarrow> FRESULT \<times> 'd"
  f_close :: "'d \<Rightarrow> FRESULT \<times> 'd"
  f_read :: "'d \<Rightarrow> u32 \<Rightarrow> FRESULT \<times> u8 list \<times> u32 \<times> 'd"
  f_write :: "'d \<Rightarrow> u8 list \<Rightarrow> u32 \<Rightarrow> FRESULT \<times> u32 \<times> 'd"
  f_lseek :: "'d \<Rightarrow> u32 \<Rightarrow> FRESULT \<times> 'd"
  f_tell :: "'d \<Rightarrow> u32"
  f_size :: "'d \<Rightarrow> u32"
  f_puts :: "'d \<Rightarrow> string \<Rightarrow> u32 \<times> 'd"
  f_sync :: "'d \<Rightarrow> FRESULT \<times> 'd"

text \<open>The driver entry points a handle has invoked, with their arguments.\<close>

datatype fcall =
    F_OPEN string u8
  | F_CLOSE
  | F_READ u32
  | F_WRITE "u8 list" u32
  | F_LSEEK u32
  | F_PUTS string
  | F_SYNC

text \<open>
  Constants of headers that are not part of file.cpp: the enumerators of
  \<open>File::openmode\<close> (file.hpp) and the flag values and the sector size of FatFs
  (ff.h, ffconf.h). They are parameters of the model.
\<close>

record headers =
  openmode_in :: u32
  openmode_out :: u32
  openmode_trunc :: u32
  openmode_ate :: u32
  FA_READ :: u8
  FA_WRITE :: u8
  FA_CREATE_ALWAYS :: u8
  FA_OPEN_ALWAYS :: u8
  AM_DIR :: u8
  MIN_SS :: u32

section \<open>class File\<close>

text \<open>
  The members of the class: \<open>fil\<close> is the member \<open>f\<close>, the file object as the
  driver sees it, and \<open>err\<close> the sticky error. \<open>calls\<close> records, oldest first, the
  driver entry points invoked through the handle.
\<close>

record 'd File =
  fil :: 'd
  err :: u32
  calls :: "fcall list"

definition close_fil :: "'d fatfs_file \<Rightarrow> 'd File \<Rightarrow> 'd File" where
  "close_fil drv h = h\<lparr>fil := snd (f_close drv (fil h)), calls := calls h @ [F_CLOSE]\<rparr>"

text \<open>The driver flags that \<open>File::File\<close> derives from the open mode (lines 37-49).\<close>

definition File_fatfs_mode :: "headers \<Rightarrow> u32 \<Rightarrow> u8" where
  "File_fatfs_mode K mode =
    (let m0 = (0 :: u8);
         m1 = (if mode AND openmode_in K \<noteq> 0 then m0 OR FA_READ K else m0);
         m2 = (if mode AND openmode_out K \<noteq> 0 then m1 OR FA_WRITE K else m1);
         m3 = (if mode AND openmode_trunc K \<noteq> 0 then m2 OR FA_CREATE_ALWAYS K else m2)
     in if mode AND openmode_ate K \<noteq> 0 then m3 OR FA_OPEN_ALWAYS K else m3)"

text \<open>
  \<open>File::File\<close> (lines 32-60); \<open>d\<close> is the driver state the constructor finds.
\<close>

definition File_File :: "'d fatfs_file \<Rightarrow> headers \<Rightarrow> 'd \<Rightarrow> string \<Rightarrow> u32 \<Rightarrow> 'd File" where
  "File_File drv K d filename mode =
    (let fatfs_mode = File_fatfs_mode K mode;
         opened = f_open drv d (c_str filename) fatfs_mode;
         h = \<lparr>fil = snd opened, err = FRESULT_value (fst opened),
              calls = [F_OPEN (c_str filename) fatfs_mode]\<rparr>
     in if err h = FRESULT_value FR_OK then
          if mode AND openmode_ate K \<noteq> 0 then
            let sought = f_lseek drv (fil h) (f_size drv (fil h));
                h' = h\<lparr>fil := snd sought, err := FRESULT_value (fst sought),
                       calls := calls h @ [F_LSEEK (f_size drv (fil h))]\<rparr>
            in if err h' \<noteq> FRESULT_value FR_OK then close_fil drv h' else h'
          else h
        else h)"

text \<open>
  The mapping from mode flags to driver flags in the words of the specification: the
  read flag from \<open>in\<close>, the write flag from \<open>out\<close>, create-always from \<open>trunc\<close>,
  open-always from \<open>ate\<close>, and nothing else.
\<close>

definition spec_flags :: "headers \<Rightarrow> u32 \<Rightarrow> u8" where
  "spec_flags K mode =
    (if mode AND openmode_in K \<noteq> 0 then FA_READ K else 0) OR
    (if mode AND openmode_out K \<noteq> 0 then FA_WRITE K else 0) OR
    (if mode AND openmode_trunc K \<noteq> 0 then FA_CREATE_ALWAYS K else 0) OR
    (if mode AND openmode_ate K \<noteq> 0 then FA_OPEN_ALWAYS K else 0)"

text \<open>\<open>File::~File\<close> (lines 62-64).\<close>

definition File_destroy :: "'d fatfs_file \<Rightarrow> 'd File \<Rightarrow> 'd File" where
  "File_destroy drv h = close_fil drv h"

text \<open>
  \<open>File::read\<close> (lines 66-77). The result is the returned flag, the bytes the driver
  stored into \<open>data\<close> (none when the driver is not called) and the handle.
\<close>

definition File_read :: "'d fatfs_file \<Rightarrow> 'd File \<Rightarrow> u32 \<Rightarrow> bool \<times> u8 list \<times> 'd File" where
  "File_read drv h bytes_to_read =
    (if err h \<noteq> FRESULT_value FR_OK then (False, [], h)
     else
       (case f_read drv (fil h) bytes_to_read of
          (res, data, bytes_read, d') \<Rightarrow>
            let h1 = h\<lparr>fil := d', err := FRESULT_value res,
                       calls := calls h @ [F_READ bytes_to_read]\<rparr>;
                h2 = (if bytes_read \<noteq> bytes_to_read then h1\<lparr>err := FR_EOF\<rparr> else h1)
            in (err h2 = FRESULT_value FR_OK, data, h2)))"

text \<open>\<open>File::write\<close> (lines 79-90).\<close>

definition File_write :: "'d fatfs_file \<Rightarrow> 'd File \<Rightarrow> u8 list \<Rightarrow> u32 \<Rightarrow> bool \<times> 'd File" where
  "File_write drv h data bytes_to_write =
    (if err h \<noteq> FRESULT_value FR_OK then (False, h)
     else
       (case f_write drv (fil h) data bytes_to_write of
          (res, bytes_written, d') \<Rightarrow>
            let h1 = h\<lparr>fil := d', err := FRESULT_value res,
                       calls := calls h @ [F_WRITE data bytes_to_write]\<rparr>;
                h2 = (if bytes_written \<noteq> bytes_to_write then h1\<lparr>err := FR_DISK_FULL\<rparr> else h1)
            in (err h2 = FRESULT_value FR_OK, h2)))"

text \<open>
  \<open>File::seek\<close> (lines 92-107). \<open>new_position\<close> is a \<open>uint64_t\<close>; \<open>f_lseek\<close> takes a
  \<open>DWORD\<close>, so the argument is truncated to 32 bits, and the \<open>DWORD\<close> that \<open>f_tell\<close>
  reads is widened to 64 bits for the comparison and for the returned value.
  \<open>return false\<close> is the value 0.
\<close>

definition File_seek :: "'d fatfs_file \<Rightarrow> 'd File \<Rightarrow> u64 \<Rightarrow> u64 \<times> 'd File" where
  "File_seek drv h new_position =
    (if err h \<noteq> FRESULT_value FR_OK then (0, h)
     else
       let old_position = f_tell drv (fil h);
           sought = f_lseek drv (fil h) (ucast new_position);
           h1 = h\<lparr>fil := snd sought, err := FRESULT_value (fst sought),
                  calls := calls h @ [F_LSEEK (ucast new_position)]\<rparr>;
           h2 = (if err h1 \<noteq> FRESULT_value FR_OK then close_fil drv h1 else h1);
           h3 = (if (ucast (f_tell drv (fil h2)) :: u64) \<noteq> new_position
                 then close_fil drv (h2\<lparr>err := FR_BAD_SEEK\<rparr>) else h2)
       in (ucast old_position, h3))"

text \<open>
  \<open>File::puts\<close> (lines 109-115). \<open>(int)string.size()\<close> is the length reduced to 32
  bits; \<open>result >= 0\<close> reads the \<open>int\<close> as a signed value.
\<close>

definition File_puts :: "'d fatfs_file \<Rightarrow> 'd File \<Rightarrow> string \<Rightarrow> bool \<times> 'd File" where
  "File_puts drv h string =
    (case f_puts drv (fil h) (c_str string) of
       (result, d') \<Rightarrow>
         let h1 = h\<lparr>fil := d', calls := calls h @ [F_PUTS (c_str string)]\<rparr>;
             h2 = (if result \<noteq> (word_of_nat (length string) :: u32)
                   then h1\<lparr>err := FR_DISK_FULL\<rparr> else h1)
         in (0 \<le> sint result, h2))"

text \<open>\<open>File::sync\<close> (lines 117-124).\<close>

definition File_sync :: "'d fatfs_file \<Rightarrow> 'd File \<Rightarrow> bool \<times> 'd File" where
  "File_sync drv h =
    (if err h \<noteq> FRESULT_value FR_OK then (False, h)
     else
       (case f_sync drv (fil h) of
          (res, d') \<Rightarrow>
            let h1 = h\<lparr>fil := d', err := FRESULT_value res, calls := calls h @ [F_SYNC]\<rparr>
            in (err h1 = FRESULT_value FR_OK, h1)))"

text \<open>
  A sequence of calls on one handle, with the flags they return; for seek the flag is
  the returned position read as a truth value. \<open>gated\<close> holds for the members that
  test the sticky error before they do anything: all but puts.
\<close>

datatype file_op = Read u32 | Write "u8 list" u32 | Sync | Seek u64 | Puts string

fun gated :: "file_op \<Rightarrow> bool" where
  "gated (Puts s) = False"
| "gated op = True"

fun File_apply :: "'d fatfs_file \<Rightarrow> 'd File \<Rightarrow> file_op \<Rightarrow> bool \<times> 'd File" where
  "File_apply drv h (Read n) = (case File_read drv h n of (ok, data, h') \<Rightarrow> (ok, h'))"
| "File_apply drv h (Write data n) = File_write drv h data n"
| "File_apply drv h Sync = File_sync drv h"
| "File_apply drv h (Seek pos) = (case File_seek drv h pos of (old, h') \<Rightarrow> (old \<noteq> 0, h'))"
| "File_apply drv h (Puts s) = File_puts drv h s"

fun File_run :: "'d fatfs_file \<Rightarrow> 'd File \<Rightarrow> file_op list \<Rightarrow> bool list \<times> 'd File" where
  "File_run drv h [] = ([], h)"
| "File_run drv h (op # ops) =
     (case File_apply drv h op of
        (ok, h') \<Rightarrow> (case File_run drv h' ops of (oks, h'') \<Rightarrow> (ok # oks, h'')))"

section \<open>A stand-in for the file API\<close>

text \<open>
  A small scripted driver on which the theorems are instantiated: the result codes of
  \<open>f_open\<close> and \<open>f_lseek\<close> and the value of \<open>f_puts\<close> are read off the state,
  a read or write transfers at most \<open>sim_avail\<close> bytes, and a seek is clamped to the
  file size.
\<close>

record sim =
  sim_open :: FRESULT
  sim_lseek :: FRESULT
  sim_size :: u32
  sim_fptr :: u32
  sim_avail :: u32
  sim_puts :: u32

definition sim_file :: "sim fatfs_file" where
  "sim_file =
    \<lparr>f_open = (\<lambda>d name m. (sim_open d, d\<lparr>sim_fptr := 0\<rparr>)),
     f_close = (\<lambda>d. (FR_OK, d)),
     f_read = (\<lambda>d n. let k = min n (sim_avail d)
                      in (FR_OK, replicate (unat k) 0, k, d\<lparr>sim_fptr := sim_fptr d + k\<rparr>)),
     f_write = (\<lambda>d data n. let k = min n (sim_avail d)
                      in (FR_OK, k, d\<lparr>sim_fptr := sim_fptr d + k\<rparr>)),
     f_lseek = (\<lambda>d ofs. (sim_lseek d, d\<lparr>sim_fptr := min ofs (sim_size d)\<rparr>)),
     f_tell = sim_fptr,
     f_size = sim_size,
     f_puts = (\<lambda>d s. (sim_puts d, d)),
     f_sync = (\<lambda>d. (FR_OK, d))\<rparr>"

definition sim0 :: sim where
  "sim0 = \<lparr>sim_open = FR_OK, sim_lseek = FR_OK, sim_size = 100, sim_fptr = 0,
           sim_avail = 4, sim_puts = 3\<rparr>"

text \<open>
  One choice of the header constants, on which the theorems are instantiated: the flag
  values of FatFs, sectors of 512 bytes, and open-mode enumerators equal to the driver
  flags they select.
\<close>

definition K0 :: headers where
  "K0 = \<lparr>openmode_in = 0x01, openmode_out = 0x02, openmode_trunc = 0x08, openmode_ate = 0x10,
         FA_READ = 0x01, FA_WRITE = 0x02, FA_CREATE_ALWAYS = 0x08, FA_OPEN_ALWAYS = 0x10,
         AM_DIR = 0x10, MIN_SS = 512\<rparr>"

text \<open>A handle in the OK state and a handle whose open has failed.\<close>

definition h_ok :: "sim File" where
  "h_ok = \<lparr>fil = sim0, err = 0, calls = []\<rparr>"

definition h_failed :: "sim File" where
  "h_failed = File_File sim_file K0 (sim0\<lparr>sim_open := FR_NO_FILE\<rparr>) ''CAP000.BIN'' 0x01"

section \<open>directory_iterator\<close>

text \<open>
  \<open>FILINFO\<close>: the name (the characters of \<open>fname\<close> before the terminating NUL, so
  \<open>fname[0] == 0\<close> is the empty name) and the attribute bits of an entry.
\<close>

record FILINFO =
  fname :: string
  fattrib :: u8

text \<open>
  \<open>f_findfirst\<close> and \<open>f_findnext\<close>, as a parameter; \<open>'d\<close> stands for the \<open>DIR\<close>
  object together with the volume behind it.
\<close>

record 'd fatfs_dir =
  f_findfirst :: "'d \<Rightarrow> string \<Rightarrow> string \<Rightarrow> FRESULT \<times> FILINFO \<times> 'd"
  f_findnext :: "'d \<Rightarrow> FILINFO \<Rightarrow> FRESULT \<times> FILINFO \<times> 'd"

record 'd Impl =
  dir :: 'd
  filinfo :: FILINFO

text \<open>The shared pointer \<open>impl\<close>; \<open>None\<close> is the pointer after \<open>reset()\<close>.\<close>

record 'd directory_iterator =
  impl :: "'d Impl option"

text \<open>\<open>directory_iterator::directory_iterator\<close> (lines 211-221).\<close>

definition directory_iterator_ctor ::
  "'d fatfs_dir \<Rightarrow> 'd \<Rightarrow> string \<Rightarrow> string \<Rightarrow> 'd directory_iterator" where
  "directory_iterator_ctor drv d path wild =
    (case f_findfirst drv d path wild of
       (result, fi, d') \<Rightarrow>
         if result \<noteq> FR_OK then \<lparr>impl = None\<rparr>
         else \<lparr>impl = Some \<lparr>dir = d', filinfo = fi\<rparr>\<rparr>)"

text \<open>
  \<open>directory_iterator::operator++\<close> (lines 223-229). On an exhausted enumerator the
  code dereferences the null pointer; that is the result \<open>None\<close>.
\<close>

definition directory_iterator_inc ::
  "'d fatfs_dir \<Rightarrow> 'd directory_iterator \<Rightarrow> 'd directory_iterator option" where
  "directory_iterator_inc drv it =
    (case impl it of
       None \<Rightarrow> None
     | Some i \<Rightarrow>
         (case f_findnext drv (dir i) (filinfo i) of
            (result, fi, d') \<Rightarrow>
              if result \<noteq> FR_OK \<or> fname fi = [] then Some \<lparr>impl = None\<rparr>
              else Some \<lparr>impl = Some \<lparr>dir = d', filinfo = fi\<rparr>\<rparr>))"

text \<open>\<open>is_regular_file\<close> (lines 231-233).\<close>

definition is_regular_file :: "headers \<Rightarrow> u8 \<Rightarrow> bool" where
  "is_regular_file K s = (s AND AM_DIR K = 0)"

text \<open>
  Modelled from the spec: the inline members of file.hpp that the range-based loop of
  \<open>find_last_file_matching_pattern\<close> uses are missing. An enumerator differs from the
  end enumerator exactly when it is not exhausted (its \<open>impl\<close> is not \<open>None\<close>);
  dereferencing it gives the current entry \<open>filinfo\<close>, whose status is the attribute
  bits and whose path is the name.
\<close>

definition entry_status :: "FILINFO \<Rightarrow> u8" where
  "entry_status entry = fattrib entry"

definition entry_path :: "FILINFO \<Rightarrow> string" where
  "entry_path entry = fname entry"

section \<open>The sequential filename allocator\<close>

text \<open>
  The body of the loop of \<open>find_last_file_matching_pattern\<close> (lines 129-134): the
  value of \<open>last_match\<close> after the entry. Strings compare as \<open>std::string\<close> does,
  lexicographically by character code.
\<close>

definition later_match :: "headers \<Rightarrow> string \<Rightarrow> FILINFO \<Rightarrow> string" where
  "later_match K last_match entry =
    (if is_regular_file K (entry_status entry)
     then (let match = entry_path entry in if match > last_match then match else last_match)
     else last_match)"

text \<open>
  The loop itself (lines 128-135). The driver decides how many entries there are, so
  the loop need not end: \<open>None\<close> is the loop that does not return (or that increments
  an exhausted enumerator).
\<close>

partial_function (option) find_last_loop ::
  "'d fatfs_dir \<Rightarrow> headers \<Rightarrow> 'd directory_iterator \<Rightarrow> string \<Rightarrow> string option" where
  "find_last_loop drv K it last_match =
    (case impl it of
       None \<Rightarrow> Some last_match
     | Some i \<Rightarrow>
         (case directory_iterator_inc drv it of
            None \<Rightarrow> None
          | Some it' \<Rightarrow> find_last_loop drv K it' (later_match K last_match (filinfo i))))"

declare find_last_loop.simps [code]

text \<open>\<open>find_last_file_matching_pattern\<close> (lines 126-137).\<close>

definition find_last_file_matching_pattern ::
  "'d fatfs_dir \<Rightarrow> headers \<Rightarrow> 'd \<Rightarrow> string \<Rightarrow> string option" where
  "find_last_file_matching_pattern drv K d pattern =
    find_last_loop drv K (directory_iterator_ctor drv d [] (c_str pattern)) []"

text \<open>\<open>std::string::find_last_of\<close> for one character; \<open>None\<close> is \<open>npos\<close>.\<close>

fun find_last_of :: "string \<Rightarrow> char \<Rightarrow> nat option" where
  "find_last_of [] c = None"
| "find_last_of (x # xs) c =
     (case find_last_of xs c of
        Some i \<Rightarrow> Some (Suc i)
      | None \<Rightarrow> if x = c then Some 0 else None)"

text \<open>
  \<open>remove_filename_extension\<close> (lines 139-142); \<open>substr(0, npos)\<close> is the whole string.
\<close>

definition remove_filename_extension :: "string \<Rightarrow> string" where
  "remove_filename_extension filename =
    (case find_last_of filename CHR ''.'' of
       None \<Rightarrow> filename
     | Some extension_index \<Rightarrow> take extension_index filename)"

text \<open>
  The loop of \<open>increment_filename_stem_ordinal\<close> (lines 150-162), on the characters
  from the last to the first. \<open>None\<close> is a \<open>return { }\<close>; \<open>Some\<close> holds the
  characters when the loop is left by \<open>break\<close> or at \<open>rend()\<close>.
\<close>

fun increment_digits :: "string \<Rightarrow> string option" where
  "increment_digits [] = Some []"
| "increment_digits (c # cs) =
     (if c < CHR ''0'' then None
      else if c < CHR ''9'' then Some (char_of (of_char c + (1 :: nat)) # cs)
      else if c = CHR ''9'' then map_option ((#) CHR ''0'') (increment_digits cs)
      else None)"

text \<open>\<open>increment_filename_stem_ordinal\<close> (lines 144-165).\<close>

definition increment_filename_stem_ordinal :: "string \<Rightarrow> string" where
  "increment_filename_stem_ordinal filename_stem =
    (case increment_digits (rev filename_stem) of
       None \<Rightarrow> []
     | Some result \<Rightarrow> rev result)"

text \<open>\<open>next_filename_stem_matching_pattern\<close> (lines 167-177).\<close>

definition next_filename_stem_matching_pattern ::
  "'d fatfs_dir \<Rightarrow> headers \<Rightarrow> 'd \<Rightarrow> string \<Rightarrow> string option" where
  "next_filename_stem_matching_pattern drv K d filename_stem_pattern =
    (case find_last_file_matching_pattern drv K d (filename_stem_pattern @ ''.*'') of
       None \<Rightarrow> None
     | Some filename \<Rightarrow>
         let filename_stem = remove_filename_extension filename
         in if filename_stem = []
            then Some (map (\<lambda>c. if c = CHR ''?'' then CHR ''0'' else c) filename_stem_pattern)
            else Some (increment_filename_stem_ordinal filename_stem))"

section \<open>A directory listing behind the search API\<close>

text \<open>
  Modelled from the spec: the directory search of FatFs (\<open>f_findfirst\<close>,
  \<open>f_findnext\<close>) is not part of file.cpp. The search enumerates, in directory order,
  the entries whose name matches the wildcard, and signals that there are no more
  entries by an entry with an empty name. The directory is a listing of entries, and the
  matching relation between wildcard and name is a parameter. A volume that is not
  ready fails every call.
\<close>

record search =
  remaining :: "FILINFO list"
  wild :: string
  ready :: bool

fun next_match ::
  "(string \<Rightarrow> string \<Rightarrow> bool) \<Rightarrow> string \<Rightarrow> FILINFO list \<Rightarrow> (FILINFO \<times> FILINFO list) option" where
  "next_match M w [] = None"
| "next_match M w (e # es) = (if M w (fname e) then Some (e, es) else next_match M w es)"

definition listing_dir :: "(string \<Rightarrow> string \<Rightarrow> bool) \<Rightarrow> search fatfs_dir" where
  "listing_dir M =
    \<lparr>f_findfirst = (\<lambda>d path w.
        if \<not> ready d then (FR_NOT_READY, \<lparr>fname = [], fattrib = 0\<rparr>, d)
        else
          case next_match M w (remaining d) of
            None \<Rightarrow> (FR_OK, \<lparr>fname = [], fattrib = 0\<rparr>, d\<lparr>remaining := [], wild := w\<rparr>)
          | Some (e, es) \<Rightarrow> (FR_OK, e, d\<lparr>remaining := es, wild := w\<rparr>)),
     f_findnext = (\<lambda>d fi.
        if \<not> ready d then (FR_NOT_READY, fi, d)
        else
          case next_match M (wild d) (remaining d) of
            None \<Rightarrow> (FR_OK, fi\<lparr>fname := []\<rparr>, d\<lparr>remaining := []\<rparr>)
          | Some (e, es) \<Rightarrow> (FR_OK, e, d\<lparr>remaining := es\<rparr>))\<rparr>"

definition listing :: "FILINFO list \<Rightarrow> search" where
  "listing es = \<lparr>remaining = es, wild = [], ready = True\<rparr>"

text \<open>Wildcard matching with \<open>?\<close> for one character and \<open>*\<close> for any run of characters.\<close>

fun wildcard_match :: "string \<Rightarrow> string \<Rightarrow> bool" where
  "wildcard_match [] [] = True"
| "wildcard_match [] (c # cs) = False"
| "wildcard_match (p # ps) [] = (p = CHR ''*'' \<and> wildcard_match ps [])"
| "wildcard_match (p # ps) (c # cs) =
     (if p = CHR ''*'' then wildcard_match ps (c # cs) \<or> wildcard_match (p # ps) cs
      else (p = CHR ''?'' \<or> p = c) \<and> wildcard_match ps cs)"

text \<open>The names of the regular files of a listing that match a wildcard.\<close>

definition matching_files ::
  "(string \<Rightarrow> string \<Rightarrow> bool) \<Rightarrow> headers \<Rightarrow> string \<Rightarrow> FILINFO list \<Rightarrow> string list" where
  "matching_files M K w es =
    map fname (filter (\<lambda>e. M w (fname e) \<and> is_regular_file K (fattrib e)) es)"

definition file_entry :: "string \<Rightarrow> FILINFO" where
  "file_entry name = \<lparr>fname = name, fattrib = 0x20\<rparr>"

definition dir_entry :: "string \<Rightarrow> FILINFO" where
  "dir_entry name = \<lparr>fname = name, fattrib = 0x10\<rparr>"

section \<open>space\<close>

text \<open>
  The members of \<open>FATFS\<close> that \<open>space\<close> reads: \<open>n_fatent\<close>, a \<open>DWORD\<close>, and the
  cluster size \<open>csize\<close>, at most 16 bits wide.
\<close>

record FATFS =
  n_fatent :: u32
  csize :: u16

text \<open>
  Modelled from the spec: the declaration of \<open>space_info\<close> (file.hpp) is missing.
  The snapshot is the triple of total capacity, free bytes and available bytes, in the
  order of the initialiser of line 242, each a 64-bit count of bytes.
\<close>

record space_info =
  capacity :: u64
  free :: u64
  available :: u64

text \<open>
  \<open>space\<close> (lines 235-251). \<open>getfree\<close> is the driver's \<open>f_getfree\<close>: the result code,
  the free cluster count and the volume's \<open>FATFS\<close>. \<open>free_clusters\<close> and
  \<open>n_fatent\<close> are \<open>DWORD\<close>s; \<open>csize\<close> and the sector size are converted to 32 bits
  unsigned for the products, which are taken in 32 bits and then widened.
\<close>

definition space :: "(string \<Rightarrow> FRESULT \<times> u32 \<times> FATFS) \<Rightarrow> headers \<Rightarrow> string \<Rightarrow> space_info" where
  "space getfree K p =
    (case getfree (c_str p) of
       (res, free_clusters, fs) \<Rightarrow>
         if res = FR_OK then
           \<lparr>capacity = ucast ((n_fatent fs - 2) * ucast (csize fs) * MIN_SS K),
            free = ucast (free_clusters * ucast (csize fs) * MIN_SS K),
            available = ucast (free_clusters * ucast (csize fs) * MIN_SS K)\<rparr>
         else \<lparr>capacity = 0, free = 0, available = 0\<rparr>)"

section \<open>Facts about File\<close>

lemma FRESULT_value_eq_0 [simp]: "FRESULT_value r = 0 \<longleftrightarrow> r = FR_OK"
  by (cases r) simp_all

lemma File_apply_sticky:
  "err h \<noteq> FRESULT_value FR_OK \<Longrightarrow> gated op \<Longrightarrow> File_apply drv h op = (False, h)"
  by (cases op) (simp_all add: File_read_def File_write_def File_sync_def File_seek_def)

lemma File_run_sticky:
  "err h \<noteq> FRESULT_value FR_OK \<Longrightarrow> \<forall>op\<in>set ops. gated op \<Longrightarrow>
   File_run drv h ops = (replicate (length ops) False, h)"
  by (induction ops) (simp_all add: File_apply_sticky)

lemma File_apply_err:
  "err h \<noteq> FRESULT_value FR_OK \<Longrightarrow> err (snd (File_apply drv h op)) \<noteq> FRESULT_value FR_OK"
proof (cases "gated op")
  case True
  assume "err h \<noteq> FRESULT_value FR_OK"
  with True show ?thesis by (simp add: File_apply_sticky)
next
  case False
  assume e: "err h \<noteq> FRESULT_value FR_OK"
  from False obtain s where "op = Puts s" by (cases op) simp_all
  with e show ?thesis
    by (auto simp: File_puts_def FR_DISK_FULL_def Let_def split: prod.splits)
qed

lemma File_run_err:
  "err h \<noteq> FRESULT_value FR_OK \<Longrightarrow> err (snd (File_run drv h ops)) \<noteq> FRESULT_value FR_OK"
proof (induction ops arbitrary: h)
  case Nil
  then show ?case by simp
next
  case (Cons op ops)
  from Cons.prems have "err (snd (File_apply drv h op)) \<noteq> FRESULT_value FR_OK"
    by (rule File_apply_err)
  then have "err (snd (File_run drv (snd (File_apply drv h op)) ops)) \<noteq> FRESULT_value FR_OK"
    by (rule Cons.IH)
  then show ?case by (auto split: prod.splits)
qed

lemma File_fatfs_mode_spec: "File_fatfs_mode K mode = spec_flags K mode"
  by (simp add: File_fatfs_mode_def spec_flags_def Let_def ac_simps)

lemma File_File_mode:
  "File_File drv K d filename mode =
    (let opened = f_open drv d (c_str filename) (spec_flags K mode);
         h = \<lparr>fil = snd opened, err = FRESULT_value (fst opened),
              calls = [F_OPEN (c_str filename) (spec_flags K mode)]\<rparr>
     in if err h = FRESULT_value FR_OK then
          if mode AND openmode_ate K \<noteq> 0 then
            let sought = f_lseek drv (fil h) (f_size drv (fil h));
                h' = h\<lparr>fil := snd sought, err := FRESULT_value (fst sought),
                       calls := calls h @ [F_LSEEK (f_size drv (fil h))]\<rparr>
            in if err h' \<noteq> FRESULT_value FR_OK then close_fil drv h' else h'
          else h
        else h)"
  unfolding File_File_def File_fatfs_mode_spec Let_def by (rule refl)

lemma h_failed_err: "err h_failed \<noteq> FRESULT_value FR_OK"
  by (simp add: h_failed_def File_File_def sim_file_def sim0_def K0_def)

lemma sint_of_nat_small:
  "n < 2 ^ 31 \<Longrightarrow> sint (word_of_nat n :: u32) = int n"
  by (simp add: signed_of_nat signed_take_bit_int_eq_self)

lemma ne_iff_sint:
  "n < 2 ^ 31 \<Longrightarrow> (result \<noteq> (word_of_nat n :: u32)) \<longleftrightarrow> (sint result \<noteq> int n)"
  using sint_of_nat_small [of n] signed_word_eqI [of result "word_of_nat n", where ?'a = int]
  by auto

text \<open>
  C3. The constructor opens the file with exactly the driver flags that the mode
  selects: the read flag for \<open>in\<close>, the write flag for \<open>out\<close>, create-always for
  \<open>trunc\<close>, open-always for \<open>ate\<close>. When the open fails, its code is the handle's
  error and nothing else is called. When the open succeeds and \<open>ate\<close> is set, the
  next call is a seek to the file size; if that seek fails the file is closed at once
  and the handle's error is the seek's code.
\<close>

theorem File_open_flags_and_ate_seek:
  "(case f_open drv d (c_str filename) (spec_flags K mode) of
      (r1, d1) \<Rightarrow>
        (r1 \<noteq> FR_OK \<longrightarrow>
           File_File drv K d filename mode =
             \<lparr>fil = d1, err = FRESULT_value r1, calls = [F_OPEN (c_str filename) (spec_flags K mode)]\<rparr>) \<and>
        (r1 = FR_OK \<and> mode AND openmode_ate K = 0 \<longrightarrow>
           File_File drv K d filename mode =
             \<lparr>fil = d1, err = FRESULT_value FR_OK, calls = [F_OPEN (c_str filename) (spec_flags K mode)]\<rparr>) \<and>
        (r1 = FR_OK \<and> mode AND openmode_ate K \<noteq> 0 \<longrightarrow>
           (case f_lseek drv d1 (f_size drv d1) of
              (r2, d2) \<Rightarrow>
                (r2 = FR_OK \<longrightarrow>
                   File_File drv K d filename mode =
                     \<lparr>fil = d2, err = FRESULT_value FR_OK,
                      calls = [F_OPEN (c_str filename) (spec_flags K mode), F_LSEEK (f_size drv d1)]\<rparr>) \<and>
                (r2 \<noteq> FR_OK \<longrightarrow>
                   File_File drv K d filename mode =
                     \<lparr>fil = snd (f_close drv d2), err = FRESULT_value r2,
                      calls = [F_OPEN (c_str filename) (spec_flags K mode), F_LSEEK (f_size drv d1),
                               F_CLOSE]\<rparr> \<and>
                   FRESULT_value r2 \<noteq> FRESULT_value FR_OK))))"
  by (auto simp: File_File_mode close_fil_def Let_def split: prod.splits)

text \<open>
  The four cases on the scripted driver: \<open>out | ate\<close> with a failing and with a
  succeeding seek, \<open>in | out | trunc\<close>, and a failing open.
\<close>

theorem File_open_flags_and_ate_seek_witness:
  "File_File sim_file K0 (sim0\<lparr>sim_lseek := FR_DISK_ERR\<rparr>) ''LOG.TXT'' 0x12 =
     \<lparr>fil = sim0\<lparr>sim_lseek := FR_DISK_ERR, sim_fptr := 100\<rparr>, err = FRESULT_value FR_DISK_ERR,
      calls = [F_OPEN ''LOG.TXT'' 0x12, F_LSEEK 100, F_CLOSE]\<rparr> \<and>
   File_File sim_file K0 sim0 ''LOG.TXT'' 0x12 =
     \<lparr>fil = sim0\<lparr>sim_fptr := 100\<rparr>, err = 0, calls = [F_OPEN ''LOG.TXT'' 0x12, F_LSEEK 100]\<rparr> \<and>
   File_File sim_file K0 sim0 ''CAP000.BIN'' 0x0B =
     \<lparr>fil = sim0, err = 0, calls = [F_OPEN ''CAP000.BIN'' 0x0B]\<rparr> \<and>
   File_File sim_file K0 (sim0\<lparr>sim_open := FR_NO_FILE\<rparr>) ''CAP000.BIN'' 0x01 =
     \<lparr>fil = sim0\<lparr>sim_open := FR_NO_FILE\<rparr>, err = FRESULT_value FR_NO_FILE,
      calls = [F_OPEN ''CAP000.BIN'' 0x01]\<rparr>"
  using File_open_flags_and_ate_seek [where drv = sim_file and K = K0
      and d = "sim0\<lparr>sim_lseek := FR_DISK_ERR\<rparr>" and filename = "''LOG.TXT''" and mode = "0x12"]
    File_open_flags_and_ate_seek [where drv = sim_file and K = K0 and d = sim0
      and filename = "''LOG.TXT''" and mode = "0x12"]
    File_open_flags_and_ate_seek [where drv = sim_file and K = K0 and d = sim0
      and filename = "''CAP000.BIN''" and mode = "0x0B"]
    File_open_flags_and_ate_seek [where drv = sim_file and K = K0
      and d = "sim0\<lparr>sim_open := FR_NO_FILE\<rparr>" and filename = "''CAP000.BIN''" and mode = "0x01"]
  by (simp add: spec_flags_def K0_def sim_file_def sim0_def c_str_def)

text \<open>
  C4. With the sticky error set, seek returns 0 and leaves the handle as it is (no
  driver call). Otherwise it returns the position read before the seek; the position
  is read again after the seek (and after the close that follows a failed seek) and
  compared with the requested offset: on a mismatch the error becomes bad-seek and
  the file is closed, whatever the driver's seek returned; on a match the error is
  the code of the driver's seek.
\<close>

theorem File_seek_contract:
  "(err h \<noteq> FRESULT_value FR_OK \<longrightarrow> File_seek drv h new_position = (0, h)) \<and>
   (err h = FRESULT_value FR_OK \<longrightarrow>
      (case f_lseek drv (fil h) (ucast new_position) of
         (r, d1) \<Rightarrow>
           (case File_seek drv h new_position of
              (old_position, h') \<Rightarrow>
                old_position = ucast (f_tell drv (fil h)) \<and>
                (let d2 = (if r \<noteq> FR_OK then snd (f_close drv d1) else d1)
                 in (ucast (f_tell drv d2) \<noteq> new_position \<longrightarrow>
                       err h' = FR_BAD_SEEK \<and> fil h' = snd (f_close drv d2) \<and>
                       calls h' = calls h @ [F_LSEEK (ucast new_position)] @
                                  (if r \<noteq> FR_OK then [F_CLOSE] else []) @ [F_CLOSE]) \<and>
                    (ucast (f_tell drv d2) = new_position \<longrightarrow>
                       err h' = FRESULT_value r \<and> fil h' = d2 \<and>
                       calls h' = calls h @ [F_LSEEK (ucast new_position)] @
                                  (if r \<noteq> FR_OK then [F_CLOSE] else []))))))"
  by (auto simp: File_seek_def close_fil_def Let_def split: prod.splits)

text \<open>
  On the scripted driver, whose file has 100 bytes: a seek on the failed handle, a seek
  to 500 that the driver clamps to 100 while reporting success, and a seek to 50.
\<close>

theorem File_seek_contract_witness:
  "err h_failed \<noteq> FRESULT_value FR_OK \<and> File_seek sim_file h_failed 50 = (0, h_failed) \<and>
   err (h_ok\<lparr>fil := sim0\<lparr>sim_fptr := 7\<rparr>\<rparr>) = FRESULT_value FR_OK \<and>
   fst (f_lseek sim_file (sim0\<lparr>sim_fptr := 7\<rparr>) (ucast (500 :: u64))) = FR_OK \<and>
   File_seek sim_file (h_ok\<lparr>fil := sim0\<lparr>sim_fptr := 7\<rparr>\<rparr>) 500 =
     (7, \<lparr>fil = sim0\<lparr>sim_fptr := 100\<rparr>, err = FR_BAD_SEEK, calls = [F_LSEEK 500, F_CLOSE]\<rparr>) \<and>
   File_seek sim_file (h_ok\<lparr>fil := sim0\<lparr>sim_fptr := 7\<rparr>\<rparr>) 50 =
     (7, \<lparr>fil = sim0\<lparr>sim_fptr := 50\<rparr>, err = 0, calls = [F_LSEEK 50]\<rparr>)"
proof -
  have "File_seek sim_file h_failed 50 = (0, h_failed)"
    using File_seek_contract [where drv = sim_file and h = h_failed and new_position = 50]
      h_failed_err by blast
  moreover have "File_seek sim_file (h_ok\<lparr>fil := sim0\<lparr>sim_fptr := 7\<rparr>\<rparr>) 500 =
     (7, \<lparr>fil = sim0\<lparr>sim_fptr := 100\<rparr>, err = FR_BAD_SEEK, calls = [F_LSEEK 500, F_CLOSE]\<rparr>)"
    using File_seek_contract [where drv = sim_file and h = "h_ok\<lparr>fil := sim0\<lparr>sim_fptr := 7\<rparr>\<rparr>"
        and new_position = 500]
    by (auto simp: h_ok_def sim_file_def sim0_def split: prod.splits)
  moreover have "File_seek sim_file (h_ok\<lparr>fil := sim0\<lparr>sim_fptr := 7\<rparr>\<rparr>) 50 =
     (7, \<lparr>fil = sim0\<lparr>sim_fptr := 50\<rparr>, err = 0, calls = [F_LSEEK 50]\<rparr>)"
    using File_seek_contract [where drv = sim_file and h = "h_ok\<lparr>fil := sim0\<lparr>sim_fptr := 7\<rparr>\<rparr>"
        and new_position = 50]
    by (auto simp: h_ok_def sim_file_def sim0_def split: prod.splits)
  moreover have "fst (f_lseek sim_file (sim0\<lparr>sim_fptr := 7\<rparr>) (ucast (500 :: u64))) = FR_OK"
    by (simp add: sim_file_def sim0_def)
  moreover have "err (h_ok\<lparr>fil := sim0\<lparr>sim_fptr := 7\<rparr>\<rparr>) = FRESULT_value FR_OK"
    by (simp add: h_ok_def)
  ultimately show ?thesis using h_failed_err by blast
qed

text \<open>
  C5. On a handle whose error is not OK, read, write and sync return false and leave
  the handle as it is: the error is unchanged and the driver is not called (the driver
  state and the record of calls are the same). So every call of any sequence of reads,
  writes and syncs (and seeks) returns false and the handle stays as it is. The state
  is terminal: after any sequence of calls of any member, puts included, the error is
  still not OK.
\<close>

theorem sticky_error_is_terminal:
  assumes "err h \<noteq> FRESULT_value FR_OK"
  shows "File_read drv h n = (False, [], h) \<and>
         File_write drv h data m = (False, h) \<and>
         File_sync drv h = (False, h) \<and>
         ((\<forall>op\<in>set ops. gated op) \<longrightarrow> File_run drv h ops = (replicate (length ops) False, h)) \<and>
         err (snd (File_run drv h ops)) \<noteq> FRESULT_value FR_OK"
proof -
  from assms have "err (snd (File_run drv h ops)) \<noteq> FRESULT_value FR_OK"
    by (rule File_run_err)
  with assms show ?thesis
    by (simp add: File_read_def File_write_def File_sync_def File_run_sticky)
qed

text \<open>The handle whose open failed with "no file".\<close>

theorem sticky_error_is_terminal_witness:
  "err h_failed \<noteq> FRESULT_value FR_OK \<and>
   File_read sim_file h_failed 4 = (False, [], h_failed) \<and>
   File_write sim_file h_failed [1, 2] 2 = (False, h_failed) \<and>
   File_sync sim_file h_failed = (False, h_failed) \<and>
   gated (Read 4) \<and> gated Sync \<and> gated (Seek 8) \<and> gated (Write [1, 2] 2) \<and>
   File_run sim_file h_failed [Read 4, Sync, Seek 8, Write [1, 2] 2]
     = ([False, False, False, False], h_failed)"
proof -
  have g: "\<forall>op\<in>set [Read 4, Sync, Seek 8, Write [1, 2] 2]. gated op"
    by simp
  have "File_read sim_file h_failed 4 = (False, [], h_failed) \<and>
    File_write sim_file h_failed [1, 2] 2 = (False, h_failed) \<and>
    File_sync sim_file h_failed = (False, h_failed) \<and>
    File_run sim_file h_failed [Read 4, Sync, Seek 8, Write [1, 2] 2]
      = (replicate (length [Read 4, Sync, Seek 8, Write [1, 2] 2]) False, h_failed)"
    using g sticky_error_is_terminal [OF h_failed_err, where drv = sim_file and n = 4
        and data = "[1, 2]" and m = 2 and ops = "[Read 4, Sync, Seek 8, Write [1, 2] 2]"]
    by blast
  then show ?thesis
    using h_failed_err g by (simp del: File_run.simps)
qed

text \<open>
  C6. A read for which the driver reports a count different from the requested one
  leaves the error end-of-file; a write for which the driver reports a different count
  leaves the error disk-full; with equal counts the error is the driver's code. Read
  and write return true exactly when the error is OK after the call (also when the
  driver is not called at all).
\<close>

theorem short_transfer_sets_error:
  "(case File_read drv h n of
      (ok, data, h') \<Rightarrow>
        (ok \<longleftrightarrow> err h' = FRESULT_value FR_OK) \<and>
        (err h = FRESULT_value FR_OK \<longrightarrow>
           (case f_read drv (fil h) n of
              (res, buf, bytes_read, d') \<Rightarrow>
                (bytes_read \<noteq> n \<longrightarrow> err h' = FR_EOF \<and> \<not> ok) \<and>
                (bytes_read = n \<longrightarrow> err h' = FRESULT_value res)))) \<and>
   (case File_write drv h bytes m of
      (ok, h') \<Rightarrow>
        (ok \<longleftrightarrow> err h' = FRESULT_value FR_OK) \<and>
        (err h = FRESULT_value FR_OK \<longrightarrow>
           (case f_write drv (fil h) bytes m of
              (res, bytes_written, d') \<Rightarrow>
                (bytes_written \<noteq> m \<longrightarrow> err h' = FR_DISK_FULL \<and> \<not> ok) \<and>
                (bytes_written = m \<longrightarrow> err h' = FRESULT_value res))))"
  by (auto simp: File_read_def File_write_def FR_EOF_def FR_DISK_FULL_def Let_def split: prod.splits)

text \<open>The scripted driver transfers 4 bytes of the 10 and of the 6 requested.\<close>

theorem short_transfer_sets_error_witness:
  "err h_ok = FRESULT_value FR_OK \<and>
   fst (snd (snd (f_read sim_file (fil h_ok) 10))) \<noteq> 10 \<and>
   File_read sim_file h_ok 10 =
     (False, [0, 0, 0, 0], \<lparr>fil = sim0\<lparr>sim_fptr := 4\<rparr>, err = FR_EOF, calls = [F_READ 10]\<rparr>) \<and>
   fst (snd (f_write sim_file (fil h_ok) [1, 2, 3, 4, 5, 6] 6)) \<noteq> 6 \<and>
   File_write sim_file h_ok [1, 2, 3, 4, 5, 6] 6 =
     (False, \<lparr>fil = sim0\<lparr>sim_fptr := 4\<rparr>, err = FR_DISK_FULL,
              calls = [F_WRITE [1, 2, 3, 4, 5, 6] 6]\<rparr>)"
proof -
  have r: "f_read sim_file sim0 10 = (FR_OK, [0, 0, 0, 0], 4, sim0\<lparr>sim_fptr := 4\<rparr>)"
    by code_simp
  have w: "f_write sim_file sim0 [1, 2, 3, 4, 5, 6] 6 = (FR_OK, 4, sim0\<lparr>sim_fptr := 4\<rparr>)"
    by code_simp
  show ?thesis
    using short_transfer_sets_error [where drv = sim_file and h = h_ok and n = 10
        and bytes = "[1, 2, 3, 4, 5, 6]" and m = 6]
    by (simp add: r w File_read_def File_write_def Let_def h_ok_def)
qed

text \<open>
  C9, as stated, fails: a negative value of the text-put primitive is not reported
  through the flag only. With the primitive returning -1 for a string of 5 characters,
  puts changes the handle's error (to disk-full).
\<close>

theorem File_puts_negative_result_sets_disk_full:
  "sint (fst (f_puts sim_file (sim0\<lparr>sim_puts := - 1\<rparr>) (c_str ''hello''))) < 0 \<and>
   err (snd (File_puts sim_file (h_ok\<lparr>fil := sim0\<lparr>sim_puts := - 1\<rparr>\<rparr>) ''hello''))
     \<noteq> err (h_ok\<lparr>fil := sim0\<lparr>sim_puts := - 1\<rparr>\<rparr>)"
  by (simp add: File_puts_def h_ok_def sim_file_def sim0_def c_str_def FR_DISK_FULL_def)

text \<open>
  C9, amended. puts calls the text-put primitive whatever the sticky error is.
  Afterwards the error is disk-full if the primitive's value differs from the string's
  size (as an \<open>int\<close>) and is unchanged otherwise; the returned flag is false exactly
  when the value is negative. For a string shorter than \<open>2^31\<close> characters,
  differing from the converted size is differing from the length, and every negative
  value differs from it: a negative value gives the flag false and the error
  disk-full, the same code as a short write and no code of the failure itself.
\<close>

theorem File_puts_not_gated:
  "(case f_puts drv (fil h) (c_str s) of
      (result, d') \<Rightarrow>
        (case File_puts drv h s of
           (ok, h') \<Rightarrow>
             calls h' = calls h @ [F_PUTS (c_str s)] \<and> fil h' = d' \<and>
             err h' = (if result \<noteq> word_of_nat (length s) then FR_DISK_FULL else err h) \<and>
             (ok \<longleftrightarrow> 0 \<le> sint result) \<and>
             (length s < 2 ^ 31 \<longrightarrow>
                (result \<noteq> word_of_nat (length s) \<longleftrightarrow> sint result \<noteq> int (length s)) \<and>
                (sint result < 0 \<longrightarrow> err h' = FR_DISK_FULL \<and> \<not> ok))))"
  by (auto simp: File_puts_def Let_def ne_iff_sint split: prod.splits)

text \<open>
  puts on the failed handle (the primitive is called and accepts 3 of 5 characters), a
  primitive that returns -1, and a complete write.
\<close>

theorem File_puts_not_gated_witness:
  "length ''hello'' < 2 ^ 31 \<and>
   File_puts sim_file h_failed ''hello'' =
     (True, h_failed\<lparr>err := FR_DISK_FULL, calls := calls h_failed @ [F_PUTS ''hello'']\<rparr>) \<and>
   sint (- 1 :: u32) < 0 \<and>
   File_puts sim_file (h_ok\<lparr>fil := sim0\<lparr>sim_puts := - 1\<rparr>\<rparr>) ''hello'' =
     (False, \<lparr>fil = sim0\<lparr>sim_puts := - 1\<rparr>, err = FR_DISK_FULL, calls = [F_PUTS ''hello'']\<rparr>) \<and>
   File_puts sim_file h_ok ''abc'' = (True, \<lparr>fil = sim0, err = 0, calls = [F_PUTS ''abc'']\<rparr>)"
  using File_puts_not_gated [where drv = sim_file and h = h_failed and s = "''hello''"]
    File_puts_not_gated [where drv = sim_file and h = "h_ok\<lparr>fil := sim0\<lparr>sim_puts := - 1\<rparr>\<rparr>"
      and s = "''hello''"]
    File_puts_not_gated [where drv = sim_file and h = h_ok and s = "''abc''"]
  by (simp add: h_ok_def h_failed_def File_File_def File_fatfs_mode_def K0_def sim_file_def
      sim0_def File_puts_def Let_def c_str_def)

text \<open>
  C10. When the text-put primitive returns a value that is not negative and is smaller
  than the string's length, puts leaves the error disk-full (which is not OK) and
  returns true. For read, write and sync a true result does mean that the error is OK
  afterwards.
\<close>

theorem File_puts_short_write_returns_true:
  assumes "f_puts drv (fil h) (c_str s) = (result, d')"
    and "0 \<le> sint result" and "sint result < int (length s)" and "length s < 2 ^ 31"
  shows "File_puts drv h s =
           (True, h\<lparr>fil := d', calls := calls h @ [F_PUTS (c_str s)], err := FR_DISK_FULL\<rparr>) \<and>
         FR_DISK_FULL \<noteq> FRESULT_value FR_OK \<and>
         (fst (File_read drv h n) \<longrightarrow>
            err (snd (snd (File_read drv h n))) = FRESULT_value FR_OK) \<and>
         (fst (File_write drv h bytes m) \<longrightarrow>
            err (snd (File_write drv h bytes m)) = FRESULT_value FR_OK) \<and>
         (fst (File_sync drv h) \<longrightarrow> err (snd (File_sync drv h)) = FRESULT_value FR_OK)"
proof -
  from assms(3,4) have "result \<noteq> word_of_nat (length s)"
    by (simp add: ne_iff_sint)
  with assms(1,2) have "File_puts drv h s =
      (True, h\<lparr>fil := d', calls := calls h @ [F_PUTS (c_str s)], err := FR_DISK_FULL\<rparr>)"
    by (simp add: File_puts_def)
  moreover have "FR_DISK_FULL \<noteq> FRESULT_value FR_OK"
    by (simp add: FR_DISK_FULL_def)
  moreover have "fst (File_read drv h n) \<longrightarrow>
      err (snd (snd (File_read drv h n))) = FRESULT_value FR_OK"
    by (auto simp: File_read_def Let_def split: prod.splits)
  moreover have "fst (File_write drv h bytes m) \<longrightarrow>
      err (snd (File_write drv h bytes m)) = FRESULT_value FR_OK"
    by (auto simp: File_write_def Let_def split: prod.splits)
  moreover have "fst (File_sync drv h) \<longrightarrow> err (snd (File_sync drv h)) = FRESULT_value FR_OK"
    by (auto simp: File_sync_def Let_def split: prod.splits)
  ultimately show ?thesis by blast
qed

text \<open>The scripted driver accepts 3 of the 5 characters.\<close>

theorem File_puts_short_write_returns_true_witness:
  "f_puts sim_file (fil h_ok) (c_str ''hello'') = (3, sim0) \<and> 0 \<le> sint (3 :: u32) \<and>
   sint (3 :: u32) < int (length ''hello'') \<and> length ''hello'' < 2 ^ 31 \<and>
   File_puts sim_file h_ok ''hello'' =
     (True, \<lparr>fil = sim0, err = FR_DISK_FULL, calls = [F_PUTS ''hello'']\<rparr>) \<and>
   File_sync sim_file h_ok = (True, \<lparr>fil = sim0, err = 0, calls = [F_SYNC]\<rparr>)"
proof -
  have a: "f_puts sim_file (fil h_ok) (c_str ''hello'') = (3, sim0)"
    by (simp add: sim_file_def h_ok_def sim0_def)
  have b: "0 \<le> sint (3 :: u32)" by simp
  have c: "sint (3 :: u32) < int (length ''hello'')" by simp
  have d: "length ''hello'' < 2 ^ 31" by simp
  show ?thesis
    using a b c d
      File_puts_short_write_returns_true [OF a b c d, where n = 0 and bytes = "[]" and m = 0]
    by (simp add: h_ok_def File_sync_def sim_file_def c_str_def)
qed

section \<open>Facts about directory_iterator\<close>

text \<open>
  C8. When \<open>f_findfirst\<close> fails, the constructed enumerator is exhausted. An advance
  of an enumerator that is not exhausted leaves it exhausted exactly when
  \<open>f_findnext\<close> returns a failure or an entry with an empty name, and otherwise leaves
  it at the entry found. An exhausted enumerator cannot be advanced (the code
  dereferences its null pointer), so no advance leads from exhausted to not exhausted.
\<close>

theorem directory_iterator_exhaustion:
  "(fst (f_findfirst drv d path w) \<noteq> FR_OK \<longrightarrow>
      impl (directory_iterator_ctor drv d path w) = None) \<and>
   (impl it = Some i \<longrightarrow>
      (case f_findnext drv (dir i) (filinfo i) of
         (result, fi, d') \<Rightarrow>
           (case directory_iterator_inc drv it of
              None \<Rightarrow> False
            | Some it' \<Rightarrow>
                (impl it' = None \<longleftrightarrow> result \<noteq> FR_OK \<or> fname fi = []) \<and>
                (impl it' \<noteq> None \<longrightarrow> impl it' = Some \<lparr>dir = d', filinfo = fi\<rparr>)))) \<and>
   (impl it = None \<longrightarrow> directory_iterator_inc drv it = None)"
  by (auto simp: directory_iterator_ctor_def directory_iterator_inc_def split: prod.splits)

text \<open>
  A search on a volume that is not ready, an advance to a second entry, an advance
  past the last entry, and an advance of the exhausted enumerator.
\<close>

theorem directory_iterator_exhaustion_witness:
  "fst (f_findfirst (listing_dir wildcard_match) ((listing [file_entry ''CAP000.BIN''])\<lparr>ready := False\<rparr>)
          [] ''CAP???.*'') \<noteq> FR_OK \<and>
   impl (directory_iterator_ctor (listing_dir wildcard_match)
     ((listing [file_entry ''CAP000.BIN''])\<lparr>ready := False\<rparr>) [] ''CAP???.*'') = None \<and>
   map_option impl (directory_iterator_inc (listing_dir wildcard_match)
     \<lparr>impl = Some \<lparr>dir = \<lparr>remaining = [file_entry ''CAP001.BIN''], wild = ''CAP???.*'', ready = True\<rparr>,
                    filinfo = file_entry ''CAP000.BIN''\<rparr>\<rparr>)
     = Some (Some \<lparr>dir = \<lparr>remaining = [], wild = ''CAP???.*'', ready = True\<rparr>,
                   filinfo = file_entry ''CAP001.BIN''\<rparr>) \<and>
   map_option impl (directory_iterator_inc (listing_dir wildcard_match)
     \<lparr>impl = Some \<lparr>dir = \<lparr>remaining = [], wild = ''CAP???.*'', ready = True\<rparr>,
                    filinfo = file_entry ''CAP001.BIN''\<rparr>\<rparr>) = Some None \<and>
   directory_iterator_inc (listing_dir wildcard_match) \<lparr>impl = None\<rparr> = None"
proof -
  have a: "fst (f_findfirst (listing_dir wildcard_match)
      ((listing [file_entry ''CAP000.BIN''])\<lparr>ready := False\<rparr>) [] ''CAP???.*'') \<noteq> FR_OK"
    by (simp add: listing_dir_def listing_def)
  have b: "impl (directory_iterator_ctor (listing_dir wildcard_match)
     ((listing [file_entry ''CAP000.BIN''])\<lparr>ready := False\<rparr>) [] ''CAP???.*'') = None"
    and e: "directory_iterator_inc (listing_dir wildcard_match) \<lparr>impl = None\<rparr> = None"
    using a directory_iterator_exhaustion [where drv = "listing_dir wildcard_match"
      and d = "(listing [file_entry ''CAP000.BIN''])\<lparr>ready := False\<rparr>" and path = "[]"
      and w = "''CAP???.*''" and it = "\<lparr>impl = None\<rparr>"]
    by simp_all
  have fn: "fname (file_entry name) = name" for name
    by (simp add: file_entry_def)
  have n1: "f_findnext (listing_dir wildcard_match)
      \<lparr>remaining = [file_entry ''CAP001.BIN''], wild = ''CAP???.*'', ready = True\<rparr>
      (file_entry ''CAP000.BIN'')
      = (FR_OK, file_entry ''CAP001.BIN'', \<lparr>remaining = [], wild = ''CAP???.*'', ready = True\<rparr>)"
    by (simp add: listing_dir_def file_entry_def)
  have n2: "f_findnext (listing_dir wildcard_match)
      \<lparr>remaining = [], wild = ''CAP???.*'', ready = True\<rparr> (file_entry ''CAP001.BIN'')
      = (FR_OK, (file_entry ''CAP001.BIN'')\<lparr>fname := []\<rparr>,
         \<lparr>remaining = [], wild = ''CAP???.*'', ready = True\<rparr>)"
    by (simp add: listing_dir_def file_entry_def)
  have c: "map_option impl (directory_iterator_inc (listing_dir wildcard_match)
     \<lparr>impl = Some \<lparr>dir = \<lparr>remaining = [file_entry ''CAP001.BIN''], wild = ''CAP???.*'', ready = True\<rparr>,
                    filinfo = file_entry ''CAP000.BIN''\<rparr>\<rparr>)
     = Some (Some \<lparr>dir = \<lparr>remaining = [], wild = ''CAP???.*'', ready = True\<rparr>,
                   filinfo = file_entry ''CAP001.BIN''\<rparr>)"
    using directory_iterator_exhaustion [where drv = "listing_dir wildcard_match"
      and d = "listing []" and path = "[]" and w = "[]"
      and it = "\<lparr>impl = Some \<lparr>dir = \<lparr>remaining = [file_entry ''CAP001.BIN''],
                   wild = ''CAP???.*'', ready = True\<rparr>, filinfo = file_entry ''CAP000.BIN''\<rparr>\<rparr>"
      and i = "\<lparr>dir = \<lparr>remaining = [file_entry ''CAP001.BIN''],
                   wild = ''CAP???.*'', ready = True\<rparr>, filinfo = file_entry ''CAP000.BIN''\<rparr>"]
    by (cases "directory_iterator_inc (listing_dir wildcard_match)
     \<lparr>impl = Some \<lparr>dir = \<lparr>remaining = [file_entry ''CAP001.BIN''], wild = ''CAP???.*'', ready = True\<rparr>,
                    filinfo = file_entry ''CAP000.BIN''\<rparr>\<rparr>") (simp_all add: n1 fn)
  have d: "map_option impl (directory_iterator_inc (listing_dir wildcard_match)
     \<lparr>impl = Some \<lparr>dir = \<lparr>remaining = [], wild = ''CAP???.*'', ready = True\<rparr>,
                    filinfo = file_entry ''CAP001.BIN''\<rparr>\<rparr>) = Some None"
    using directory_iterator_exhaustion [where drv = "listing_dir wildcard_match"
      and d = "listing []" and path = "[]" and w = "[]"
      and it = "\<lparr>impl = Some \<lparr>dir = \<lparr>remaining = [],
                   wild = ''CAP???.*'', ready = True\<rparr>, filinfo = file_entry ''CAP001.BIN''\<rparr>\<rparr>"
      and i = "\<lparr>dir = \<lparr>remaining = [],
                   wild = ''CAP???.*'', ready = True\<rparr>, filinfo = file_entry ''CAP001.BIN''\<rparr>"]
    by (cases "directory_iterator_inc (listing_dir wildcard_match)
     \<lparr>impl = Some \<lparr>dir = \<lparr>remaining = [], wild = ''CAP???.*'', ready = True\<rparr>,
                    filinfo = file_entry ''CAP001.BIN''\<rparr>\<rparr>") (simp_all add: n2 fn)
  from a b c d e show ?thesis by blast
qed

section \<open>The loop over a directory listing\<close>

lemma find_last_loop_end: "find_last_loop drv K \<lparr>impl = None\<rparr> lm = Some lm"
  by (subst find_last_loop.simps) simp

lemma find_last_loop_step:
  "find_last_loop drv K \<lparr>impl = Some \<lparr>dir = d, filinfo = fi\<rparr>\<rparr> lm =
    (case directory_iterator_inc drv \<lparr>impl = Some \<lparr>dir = d, filinfo = fi\<rparr>\<rparr> of
       None \<Rightarrow> None
     | Some it' \<Rightarrow> find_last_loop drv K it' (later_match K lm fi))"
  by (subst find_last_loop.simps) (simp cong: option.case_cong)

lemma directory_iterator_ctor_listing:
  "directory_iterator_ctor (listing_dir M) (listing es) p w =
    (case next_match M w es of
       None \<Rightarrow> \<lparr>impl = Some \<lparr>dir = \<lparr>remaining = [], wild = w, ready = True\<rparr>,
                               filinfo = \<lparr>fname = [], fattrib = 0\<rparr>\<rparr>\<rparr>
     | Some (e, es') \<Rightarrow> \<lparr>impl = Some \<lparr>dir = \<lparr>remaining = es', wild = w, ready = True\<rparr>,
                                     filinfo = e\<rparr>\<rparr>)"
  by (simp add: directory_iterator_ctor_def listing_dir_def listing_def split: option.splits)

lemma directory_iterator_inc_skip:
  "\<not> M w (fname e) \<Longrightarrow>
   directory_iterator_inc (listing_dir M)
     \<lparr>impl = Some \<lparr>dir = \<lparr>remaining = e # es, wild = w, ready = True\<rparr>, filinfo = fi\<rparr>\<rparr>
   = directory_iterator_inc (listing_dir M)
     \<lparr>impl = Some \<lparr>dir = \<lparr>remaining = es, wild = w, ready = True\<rparr>, filinfo = fi\<rparr>\<rparr>"
  by (simp add: directory_iterator_inc_def listing_dir_def split: option.splits)

lemma find_last_loop_skip:
  "\<not> M w (fname e) \<Longrightarrow>
   find_last_loop (listing_dir M) K
     \<lparr>impl = Some \<lparr>dir = \<lparr>remaining = e # es, wild = w, ready = True\<rparr>, filinfo = fi\<rparr>\<rparr> lm
   = find_last_loop (listing_dir M) K
     \<lparr>impl = Some \<lparr>dir = \<lparr>remaining = es, wild = w, ready = True\<rparr>, filinfo = fi\<rparr>\<rparr> lm"
  by (simp add: find_last_loop_step directory_iterator_inc_skip)

text \<open>
  Over a listing whose names are not empty the loop returns, and its value is the fold
  of the loop body over the current entry and the matching entries that remain.
\<close>

lemma find_last_loop_listing:
  "\<forall>e\<in>set es. fname e \<noteq> [] \<Longrightarrow>
   find_last_loop (listing_dir M) K
     \<lparr>impl = Some \<lparr>dir = \<lparr>remaining = es, wild = w, ready = True\<rparr>, filinfo = fi\<rparr>\<rparr> lm
   = Some (foldl (later_match K) lm (fi # filter (\<lambda>e. M w (fname e)) es))"
proof (induction es arbitrary: fi lm)
  case Nil
  show ?case
    by (simp add: find_last_loop_step directory_iterator_inc_def listing_dir_def
        find_last_loop_end)
next
  case (Cons e es)
  show ?case
  proof (cases "M w (fname e)")
    case True
    have "find_last_loop (listing_dir M) K
        \<lparr>impl = Some \<lparr>dir = \<lparr>remaining = e # es, wild = w, ready = True\<rparr>, filinfo = fi\<rparr>\<rparr> lm
      = find_last_loop (listing_dir M) K
        \<lparr>impl = Some \<lparr>dir = \<lparr>remaining = es, wild = w, ready = True\<rparr>, filinfo = e\<rparr>\<rparr>
        (later_match K lm fi)"
      using True Cons.prems
      by (simp add: find_last_loop_step directory_iterator_inc_def listing_dir_def)
    then show ?thesis using True Cons by simp
  next
    case False
    then show ?thesis using Cons by (simp add: find_last_loop_skip)
  qed
qed

lemma Max_insert_max:
  "finite S \<Longrightarrow> Max (insert (max a b) S) = Max (insert a (insert b S))"
  by (cases "S = {}") (simp_all add: max.assoc)

lemma later_match_max:
  "later_match K lm e = (if is_regular_file K (fattrib e) then max lm (fname e) else lm)"
  by (auto simp: later_match_def entry_status_def entry_path_def Let_def max_def)

lemma foldl_later_match:
  "foldl (later_match K) lm es =
   Max (insert lm (set (map fname (filter (\<lambda>e. is_regular_file K (fattrib e)) es))))"
proof (induction es arbitrary: lm)
  case Nil
  show ?case by simp
next
  case (Cons e es)
  have "foldl (later_match K) lm (e # es) = foldl (later_match K) (later_match K lm e) es"
    by simp
  also have "\<dots> = Max (insert (later_match K lm e)
      (set (map fname (filter (\<lambda>e. is_regular_file K (fattrib e)) es))))"
    by (rule Cons)
  also have "\<dots> = Max (insert lm
      (set (map fname (filter (\<lambda>e. is_regular_file K (fattrib e)) (e # es)))))"
    by (simp add: later_match_max Max_insert_max del: Max_insert)
  finally show ?case .
qed

lemma next_match_None: "next_match M w es = None \<longleftrightarrow> filter (\<lambda>e. M w (fname e)) es = []"
  by (induction es) auto

lemma next_match_Some:
  "next_match M w es = Some (e, es') \<Longrightarrow>
   filter (\<lambda>e. M w (fname e)) es = e # filter (\<lambda>e. M w (fname e)) es' \<and> set es' \<subseteq> set es"
  by (induction es) (auto split: if_splits)

text \<open>
  \<open>find_last_file_matching_pattern\<close> returns the greatest name among the regular files
  that match, and the empty string when there is none.
\<close>

lemma find_last_listing:
  assumes "\<forall>e\<in>set es. fname e \<noteq> []"
  shows "find_last_file_matching_pattern (listing_dir M) K (listing es) pattern
         = Some (Max (insert [] (set (matching_files M K (c_str pattern) es))))"
proof -
  define w where "w = c_str pattern"
  have "find_last_loop (listing_dir M) K (directory_iterator_ctor (listing_dir M) (listing es) [] w) []
         = Some (Max (insert [] (set (matching_files M K w es))))"
  proof (cases "next_match M w es")
  case None
  then have "filter (\<lambda>e. M w (fname e)) es = []" by (simp add: next_match_None)
  then have "matching_files M K w es = []"
    by (simp add: matching_files_def filter_empty_conv)
  moreover have "find_last_loop (listing_dir M) K
      (directory_iterator_ctor (listing_dir M) (listing es) [] w) [] = Some []"
    using None
    by (simp add: directory_iterator_ctor_listing find_last_loop_listing later_match_max)
  ultimately show ?thesis by simp
next
  case (Some a)
  obtain e es' where a: "a = (e, es')" by (cases a)
  from Some a have f: "filter (\<lambda>e. M w (fname e)) es = e # filter (\<lambda>e. M w (fname e)) es'"
    and sub: "set es' \<subseteq> set es"
    using next_match_Some by blast+
  from sub assms have ne: "\<forall>e\<in>set es'. fname e \<noteq> []" by blast
  have "find_last_loop (listing_dir M) K
      (directory_iterator_ctor (listing_dir M) (listing es) [] w) []
      = Some (foldl (later_match K) [] (filter (\<lambda>e. M w (fname e)) es))"
    using Some a ne
    by (simp add: directory_iterator_ctor_listing find_last_loop_listing f)
  also have "foldl (later_match K) [] (filter (\<lambda>e. M w (fname e)) es)
      = Max (insert [] (set (matching_files M K w es)))"
    by (simp only: foldl_later_match matching_files_def filter_filter)
  finally show ?thesis .
  qed
  then show ?thesis
    by (simp add: find_last_file_matching_pattern_def w_def)
qed

lemma next_stem_listing:
  assumes "\<forall>e\<in>set es. fname e \<noteq> []"
  shows "next_filename_stem_matching_pattern (listing_dir M) K (listing es) p =
    (let filename_stem = remove_filename_extension
           (Max (insert [] (set (matching_files M K (c_str (p @ ''.*'')) es))))
     in if filename_stem = []
        then Some (map (\<lambda>c. if c = CHR ''?'' then CHR ''0'' else c) p)
        else Some (increment_filename_stem_ordinal filename_stem))"
  by (simp add: next_filename_stem_matching_pattern_def find_last_listing [OF assms])

lemma c_str_CAP: "c_str ''CAP???.*'' = ''CAP???.*''"
  by (simp add: c_str_def)

lemma remove_extension_CAP004: "remove_filename_extension ''CAP004.BIN'' = ''CAP004''"
  by (simp add: remove_filename_extension_def)

lemma increment_CAP004: "increment_filename_stem_ordinal ''CAP004'' = ''CAP005''"
  by code_simp

lemma char_succ_not_zero:
  "\<not> c < CHR ''0'' \<Longrightarrow> c < CHR ''9'' \<Longrightarrow> char_of (of_char c + (1 :: nat)) \<noteq> CHR ''0''"
proof
  assume a: "\<not> c < CHR ''0''" and b: "c < CHR ''9''"
    and e: "char_of (of_char c + (1 :: nat)) = CHR ''0''"
  from a b have r: "48 \<le> (of_char c :: nat)" "(of_char c :: nat) < 57"
    by (simp_all add: less_char_def not_less)
  from e have "(of_char (char_of (of_char c + (1 :: nat))) :: nat) = of_char CHR ''0''"
    by simp
  then have "(of_char c + 1) mod 256 = (48 :: nat)" by simp
  with r show False by simp
qed

lemma increment_digits_zeros_iff:
  "increment_digits cs = Some (replicate (length cs) CHR ''0'') \<longleftrightarrow> (\<forall>c\<in>set cs. c = CHR ''9'')"
proof (induction cs)
  case Nil
  show ?case by simp
next
  case (Cons c cs)
  show ?case
  proof (cases "c = CHR ''9''")
    case True
    then show ?thesis using Cons by auto
  next
    case False
    then show ?thesis using char_succ_not_zero [of c] by auto
  qed
qed

lemma increment_zeros_iff:
  "increment_filename_stem_ordinal s = replicate (length s) CHR ''0'' \<longleftrightarrow> (\<forall>c\<in>set s. c = CHR ''9'')"
proof (cases "increment_digits (rev s)")
  case None
  then have "s \<noteq> []" by auto
  moreover from None have "\<not> (\<forall>c\<in>set (rev s). c = CHR ''9'')"
    using increment_digits_zeros_iff [of "rev s"] by simp
  ultimately show ?thesis using None
    by (simp add: increment_filename_stem_ordinal_def)
next
  case (Some r)
  have "rev r = replicate (length s) CHR ''0'' \<longleftrightarrow> r = replicate (length (rev s)) CHR ''0''"
    by (metis length_rev rev_replicate rev_rev_ident)
  then show ?thesis using Some increment_digits_zeros_iff [of "rev s"]
    by (simp add: increment_filename_stem_ordinal_def)
qed

lemma increment_digits_nines_prefix:
  "increment_digits (replicate k CHR ''9'' @ cs)
     = map_option (\<lambda>r. replicate k CHR ''0'' @ r) (increment_digits cs)"
  by (induction k) (simp_all add: option.map_comp comp_def option.map_ident)

lemma increment_non_digit:
  "c < CHR ''0'' \<or> CHR ''9'' < c \<Longrightarrow>
   increment_filename_stem_ordinal (pre @ c # replicate k CHR ''9'') = []"
  by (auto simp: increment_filename_stem_ordinal_def increment_digits_nines_prefix)

lemma increment_digit:
  "\<not> c < CHR ''0'' \<Longrightarrow> c < CHR ''9'' \<Longrightarrow>
   increment_filename_stem_ordinal (pre @ c # replicate k CHR ''9'')
     = pre @ char_of (of_char c + (1 :: nat)) # replicate k CHR ''0''"
  by (simp add: increment_filename_stem_ordinal_def increment_digits_nines_prefix)

lemma char_of_53: "char_of (53 :: nat) = CHR ''5''"
  by code_simp

section \<open>Facts about the sequential filename allocator\<close>

text \<open>
  C2. Over a directory whose regular files matching \<open>CAP???.*\<close> are exactly
  CAP000.BIN, CAP001.BIN and CAP004.BIN (in any order, among any other entries),
  \<open>next_filename_stem_matching_pattern\<close> for the pattern \<open>CAP???\<close> returns CAP005.
  Over a directory with no regular file matching the pattern it returns the pattern
  with every \<open>?\<close> replaced by \<open>0\<close>, which is CAP000 for \<open>CAP???\<close>.
\<close>

theorem next_stem_after_greatest_match:
  assumes "\<forall>e\<in>set es. fname e \<noteq> []"
  shows "(set (matching_files M K ''CAP???.*'' es) = {''CAP000.BIN'', ''CAP001.BIN'', ''CAP004.BIN''} \<longrightarrow>
            next_filename_stem_matching_pattern (listing_dir M) K (listing es) ''CAP???''
              = Some ''CAP005'') \<and>
         (matching_files M K (c_str (p @ ''.*'')) es = [] \<longrightarrow>
            next_filename_stem_matching_pattern (listing_dir M) K (listing es) p
              = Some (map (\<lambda>c. if c = CHR ''?'' then CHR ''0'' else c) p)) \<and>
         (matching_files M K ''CAP???.*'' es = [] \<longrightarrow>
            next_filename_stem_matching_pattern (listing_dir M) K (listing es) ''CAP???''
              = Some ''CAP000'')"
proof (intro conjI impI)
  assume s: "set (matching_files M K ''CAP???.*'' es) = {''CAP000.BIN'', ''CAP001.BIN'', ''CAP004.BIN''}"
  have m: "Max (insert [] (set (matching_files M K ''CAP???.*'' es))) = ''CAP004.BIN''"
    unfolding s by simp
  show "next_filename_stem_matching_pattern (listing_dir M) K (listing es) ''CAP???'' = Some ''CAP005''"
    using m
    by (simp add: next_stem_listing [OF assms] c_str_CAP remove_extension_CAP004 increment_CAP004)
next
  assume "matching_files M K (c_str (p @ ''.*'')) es = []"
  then show "next_filename_stem_matching_pattern (listing_dir M) K (listing es) p
              = Some (map (\<lambda>c. if c = CHR ''?'' then CHR ''0'' else c) p)"
    by (simp add: next_stem_listing [OF assms] remove_filename_extension_def)
next
  assume "matching_files M K ''CAP???.*'' es = []"
  then show "next_filename_stem_matching_pattern (listing_dir M) K (listing es) ''CAP???'' = Some ''CAP000''"
    by (simp add: next_stem_listing [OF assms] c_str_CAP remove_filename_extension_def)
qed

text \<open>
  A directory that holds the three files out of order, a file that does not match and a
  directory whose name matches; and a directory without a match.
\<close>

theorem next_stem_after_greatest_match_witness:
  "next_filename_stem_matching_pattern (listing_dir wildcard_match) K0
     (listing [file_entry ''CAP001.BIN'', file_entry ''NOTES.TXT'', file_entry ''CAP004.BIN'',
               dir_entry ''CAP007.D'', file_entry ''CAP000.BIN'']) ''CAP???'' = Some ''CAP005'' \<and>
   next_filename_stem_matching_pattern (listing_dir wildcard_match) K0
     (listing [file_entry ''NOTES.TXT'']) ''CAP???'' = Some ''CAP000''"
  using next_stem_after_greatest_match [of "[file_entry ''CAP001.BIN'', file_entry ''NOTES.TXT'',
        file_entry ''CAP004.BIN'', dir_entry ''CAP007.D'', file_entry ''CAP000.BIN'']"
      wildcard_match K0 "''CAP???''"]
    next_stem_after_greatest_match [of "[file_entry ''NOTES.TXT'']" wildcard_match K0 "''CAP???''"]
  by (simp add: matching_files_def file_entry_def dir_entry_def K0_def is_regular_file_def
      insert_commute c_str_def)

text \<open>
  C1, as stated, fails: over the directory that holds only CAP999.BIN the result for
  \<open>CAP???\<close> is not CAP000.
\<close>

theorem stem_after_CAP999_is_not_CAP000:
  "next_filename_stem_matching_pattern (listing_dir wildcard_match) K0
     (listing [file_entry ''CAP999.BIN'']) ''CAP???'' \<noteq> Some ''CAP000''"
  by (simp add: next_filename_stem_matching_pattern_def find_last_file_matching_pattern_def
      find_last_loop.simps directory_iterator_ctor_def directory_iterator_inc_def listing_dir_def
      listing_def file_entry_def K0_def is_regular_file_def later_match_def entry_status_def
      entry_path_def remove_filename_extension_def increment_filename_stem_ordinal_def c_str_def)

text \<open>
  C1, amended. Over a directory whose only regular file matching \<open>CAP???.*\<close> is
  CAP999.BIN the result for \<open>CAP???\<close> is the empty stem: the carry turns the three
  digits into zeros and then meets \<open>P\<close>, which is not a digit, where the increment
  gives up. The all-zeros stem is returned exactly when the carry propagates past the
  leftmost character, that is when the last stem consists of nines only: over a
  directory whose only match is 999.BIN the result for \<open>???\<close> is 000, and for any
  directory with a last stem the result is the all-zeros stem of its length if and only
  if the last stem is all nines. For every other stem the character before the trailing
  nines decides: a digit below 9 is incremented and the nines become zeros, and any
  other character gives the empty result.
\<close>

theorem stem_after_nines:
  assumes "\<forall>e\<in>set es. fname e \<noteq> []"
  shows "(set (matching_files M K ''CAP???.*'' es) = {''CAP999.BIN''} \<longrightarrow>
            next_filename_stem_matching_pattern (listing_dir M) K (listing es) ''CAP???'' = Some []) \<and>
         (set (matching_files M K ''???.*'' es) = {''999.BIN''} \<longrightarrow>
            next_filename_stem_matching_pattern (listing_dir M) K (listing es) ''???'' = Some ''000'') \<and>
         (let last_stem = remove_filename_extension
                (Max (insert [] (set (matching_files M K (c_str (p @ ''.*'')) es))))
          in last_stem \<noteq> [] \<longrightarrow>
               (next_filename_stem_matching_pattern (listing_dir M) K (listing es) p
                  = Some (replicate (length last_stem) CHR ''0'')
                \<longleftrightarrow> (\<forall>c\<in>set last_stem. c = CHR ''9''))) \<and>
         (increment_filename_stem_ordinal s = replicate (length s) CHR ''0''
            \<longleftrightarrow> (\<forall>c\<in>set s. c = CHR ''9'')) \<and>
         (c < CHR ''0'' \<or> CHR ''9'' < c \<longrightarrow>
            increment_filename_stem_ordinal (pre @ c # replicate k CHR ''9'') = []) \<and>
         (\<not> c < CHR ''0'' \<and> c < CHR ''9'' \<longrightarrow>
            increment_filename_stem_ordinal (pre @ c # replicate k CHR ''9'')
              = pre @ char_of (of_char c + (1 :: nat)) # replicate k CHR ''0'')"
proof (intro conjI impI)
  assume s: "set (matching_files M K ''CAP???.*'' es) = {''CAP999.BIN''}"
  show "next_filename_stem_matching_pattern (listing_dir M) K (listing es) ''CAP???'' = Some []"
    by (simp add: next_stem_listing [OF assms] c_str_CAP s remove_filename_extension_def
        increment_filename_stem_ordinal_def)
next
  assume s: "set (matching_files M K ''???.*'' es) = {''999.BIN''}"
  have c: "c_str ''???.*'' = ''???.*''" by (simp add: c_str_def)
  show "next_filename_stem_matching_pattern (listing_dir M) K (listing es) ''???'' = Some ''000''"
    by (simp add: next_stem_listing [OF assms] c s remove_filename_extension_def
        increment_filename_stem_ordinal_def)
next
  show "let last_stem = remove_filename_extension
                (Max (insert [] (set (matching_files M K (c_str (p @ ''.*'')) es))))
          in last_stem \<noteq> [] \<longrightarrow>
               (next_filename_stem_matching_pattern (listing_dir M) K (listing es) p
                  = Some (replicate (length last_stem) CHR ''0'')
                \<longleftrightarrow> (\<forall>c\<in>set last_stem. c = CHR ''9''))"
    by (simp add: next_stem_listing [OF assms] Let_def increment_zeros_iff)
next
  show "increment_filename_stem_ordinal s = replicate (length s) CHR ''0''
            \<longleftrightarrow> (\<forall>c\<in>set s. c = CHR ''9'')"
    by (rule increment_zeros_iff)
next
  assume "c < CHR ''0'' \<or> CHR ''9'' < c"
  then show "increment_filename_stem_ordinal (pre @ c # replicate k CHR ''9'') = []"
    by (rule increment_non_digit)
next
  assume "\<not> c < CHR ''0'' \<and> c < CHR ''9''"
  then show "increment_filename_stem_ordinal (pre @ c # replicate k CHR ''9'')
              = pre @ char_of (of_char c + (1 :: nat)) # replicate k CHR ''0''"
    by (simp add: increment_digit)
qed

text \<open>
  The directories that hold only CAP999.BIN and only 999.BIN, and the stems 999, 9:,
  CAP999 and CAP049.
\<close>

theorem stem_after_nines_witness:
  "next_filename_stem_matching_pattern (listing_dir wildcard_match) K0
     (listing [file_entry ''CAP999.BIN'']) ''CAP???'' = Some [] \<and>
   next_filename_stem_matching_pattern (listing_dir wildcard_match) K0
     (listing [file_entry ''999.BIN'']) ''???'' = Some ''000'' \<and>
   increment_filename_stem_ordinal ''999'' = ''000'' \<and>
   increment_filename_stem_ordinal ''9:'' \<noteq> ''00'' \<and>
   increment_filename_stem_ordinal ''CAP999'' = [] \<and>
   increment_filename_stem_ordinal ''CAP049'' = ''CAP050'' \<and>
   next_filename_stem_matching_pattern (listing_dir wildcard_match) K0
     (listing [file_entry ''CAP999.BIN'']) ''CAP???'' \<noteq> Some ''000000''"
proof -
  have a: "next_filename_stem_matching_pattern (listing_dir wildcard_match) K0
     (listing [file_entry ''CAP999.BIN'']) ''CAP???'' = Some []"
    using stem_after_nines [of "[file_entry ''CAP999.BIN'']" wildcard_match K0]
    by (simp add: matching_files_def file_entry_def K0_def is_regular_file_def)
  have b: "next_filename_stem_matching_pattern (listing_dir wildcard_match) K0
     (listing [file_entry ''999.BIN'']) ''???'' = Some ''000''"
    using stem_after_nines [of "[file_entry ''999.BIN'']" wildcard_match K0]
    by (simp add: matching_files_def file_entry_def K0_def is_regular_file_def)
  have c: "increment_filename_stem_ordinal ''999'' = ''000''"
    using stem_after_nines [of "[]" wildcard_match K0 "[]" "''999''"] by simp
  have d: "increment_filename_stem_ordinal ''9:'' \<noteq> ''00''"
    using stem_after_nines [of "[]" wildcard_match K0 "[]" "''9:''"] by simp
  have e: "increment_filename_stem_ordinal ''CAP999'' = []"
    using stem_after_nines [of "[]" wildcard_match K0 "[]" "[]" "CHR ''P''" "''CA''"
        "Suc (Suc (Suc 0))"]
    by simp
  have f: "increment_filename_stem_ordinal ''CAP049'' = ''CAP050''"
    using stem_after_nines [of "[]" wildcard_match K0 "[]" "[]" "CHR ''4''" "''CAP0''" "Suc 0"]
    by (simp add: less_char_def char_of_53)
  have g: "next_filename_stem_matching_pattern (listing_dir wildcard_match) K0
     (listing [file_entry ''CAP999.BIN'']) ''CAP???'' \<noteq> Some ''000000''"
    using stem_after_nines [of "[file_entry ''CAP999.BIN'']" wildcard_match K0 "''CAP???''"]
    by (simp add: matching_files_def file_entry_def K0_def is_regular_file_def c_str_def
        remove_filename_extension_def)
  from a b c d e f g show ?thesis by blast
qed

section \<open>Facts about space\<close>

lemma space_failure:
  "fst (getfree (c_str p)) \<noteq> FR_OK \<Longrightarrow>
   space getfree K p = \<lparr>capacity = 0, free = 0, available = 0\<rparr>"
  by (auto simp: space_def split: prod.splits)

lemma space_success:
  "getfree (c_str p) = (FR_OK, free_clusters, fs) \<Longrightarrow>
   free (space getfree K p) = available (space getfree K p) \<and>
   unat (free (space getfree K p))
     = (unat free_clusters * unat (csize fs) * unat (MIN_SS K)) mod 2 ^ 32 \<and>
   unat (capacity (space getfree K p))
     = (unat (n_fatent fs - 2) * unat (csize fs) * unat (MIN_SS K)) mod 2 ^ 32"
  by (simp add: space_def unat_word_ariths unsigned_ucast_eq mod_simps take_bit_eq_mod)

text \<open>
  C7 fails on the code. On a volume of 131072 clusters (\<open>n_fatent\<close> = 131074) of 64
  sectors of 512 bytes, a data area of 4 GiB, with no free cluster, the query succeeds
  and the snapshot is all zeros, as after a failed query: the products are taken in 32
  bits, and 131072 * 64 * 512 = \<open>2^32\<close> wraps to 0, so the total is not positive. On
  the same volume with every cluster free, the free field is 0 as well, not the
  product of the free cluster count, the cluster size and the sector size.
\<close>

theorem space_wraps_at_4GiB:
  "space (\<lambda>p. (FR_OK, 0, \<lparr>n_fatent = 131074, csize = 64\<rparr>)) K0 ''/''
     = \<lparr>capacity = 0, free = 0, available = 0\<rparr> \<and>
   free (space (\<lambda>p. (FR_OK, 131072, \<lparr>n_fatent = 131074, csize = 64\<rparr>)) K0 ''/'') = 0 \<and>
   (131072 :: nat) * 64 * 512 = 2 ^ 32"
  by (simp add: space_def K0_def)

end
